theory Spec2Isabelle
  imports Complex_Main "HOL-Library.FSet"
begin

section \<open>Data model\<close>

text \<open>
  The program (\<^verbatim>\<open>main.py\<close>) compares the private methods of two analysed packages.
  It reads a handful of attributes from the analysis objects of an external library; these
  attributes are the fields of the records below. Python's finite sets are finite sets
  (\<open>fset\<close>) and every exception is a value of \<open>error\<close>. Python's true division
  \<^verbatim>\<open>/\<close> is exact division over the rationals that raises on a zero divisor: the
  rounding of floating-point arithmetic is not represented. Sizes and counts are natural
  numbers.
\<close>

datatype error = IndexError | ZeroDivisionError | ResolutionError

type_synonym token = string

text \<open>
  Modelled from the spec: the result of resolving the string constant of a string-load
  instruction (\<^verbatim>\<open>instruction.cm.vm.get_cm_string(instruction.get_ref_kind())\<close>) is a field
  of the instruction; \<open>None\<close> stands for the resolution failing with an exception
  ("fails with ResolutionError if the constant pool entry is missing"). \<open>Some s\<close> is a
  call that returns the string \<open>s\<close>, be it the constant or a stand-in string that the
  analysis library hands back where the pool has no entry.
\<close>

record instruction =
  get_name :: string
  get_cm_string :: "string option"

text \<open>
  One analysed method. \<open>get_xref_to\<close> lists the \<^verbatim>\<open>full_name\<close> of each call target,
  \<open>get_basic_blocks\<close> lists the instructions of each basic block, \<open>code\<close> is the truth
  value of \<^verbatim>\<open>method.code\<close>, \<open>get_instructions\<close> are the decoded instructions of the
  method and \<open>get_length\<close> is its size, a count.
\<close>

record method_analysis =
  full_name :: string
  class_name :: string
  get_xref_to :: "string list"
  get_basic_blocks :: "instruction list list"
  code :: bool
  get_instructions :: "instruction list"
  get_length :: nat

text \<open>The values the comparison prints: the five metrics and the overall score.\<close>

record scores =
  signature_score :: rat
  feature_score :: rat
  class_score :: rat
  length_score :: rat
  bb_score :: rat
  overall_score :: rat

section \<open>Feature extraction\<close>

text \<open>Decimal rendering of a count, as the f-string \<^verbatim>\<open>f"block:{instruction_count}"\<close> does.\<close>

function str_nat :: "nat \<Rightarrow> string" where
  "str_nat n =
     (if n < 10 then [''0123456789'' ! n]
      else str_nat (n div 10) @ [''0123456789'' ! (n mod 10)])"
  by pat_completeness auto
termination
  by (relation "measure id") auto

declare str_nat.simps [simp del]

definition get_method_signature :: "method_analysis \<Rightarrow> string" where
  "get_method_signature m = full_name m"

text \<open>
  The loop of lines 35 to 38: each \<^verbatim>\<open>const-string\<close> or \<^verbatim>\<open>const-string/jumbo\<close>
  instruction resolves its constant and adds one token. Nothing catches a failing
  resolution, so it ends the loop with the error.
\<close>

fun string_features ::
  "(string \<Rightarrow> token) \<Rightarrow> instruction list \<Rightarrow> token fset \<Rightarrow> error + token fset" where
  "string_features hash_feature [] features = Inr features"
| "string_features hash_feature (i # rest) features =
     (if get_name i \<in> set [''const-string'', ''const-string/jumbo'']
      then (case get_cm_string i of
              None \<Rightarrow> Inl ResolutionError
            | Some s \<Rightarrow>
                string_features hash_feature rest
                  (finsert (hash_feature (''string:'' @ s)) features))
      else string_features hash_feature rest features)"

text \<open>
  \<^verbatim>\<open>get_method_features\<close>. The hash (\<^verbatim>\<open>hashlib.md5(...).hexdigest()\<close>) is a library
  function; it is the parameter \<open>hash_feature\<close>.
\<close>

definition get_method_features ::
  "(string \<Rightarrow> token) \<Rightarrow> method_analysis \<Rightarrow> error + token fset" where
  "get_method_features hash_feature m =
     (let features = finsert (hash_feature (''signature:'' @ full_name m)) {||};
          features = fold (\<lambda>call fs. finsert (hash_feature (''api_call:'' @ call)) fs)
                       (get_xref_to m) features;
          features = fold (\<lambda>block fs.
                             finsert (hash_feature (''block:'' @ str_nat (length block))) fs)
                       (get_basic_blocks m) features
      in if code m then string_features hash_feature (get_instructions m) features
         else Inr features)"

text \<open>The list comprehensions of lines 84 and 85: the methods are visited in order.\<close>

fun method_features ::
  "(string \<Rightarrow> token) \<Rightarrow> method_analysis list \<Rightarrow> error + token fset list" where
  "method_features hash_feature [] = Inr []"
| "method_features hash_feature (m # ms) =
     (case get_method_features hash_feature m of
        Inl e \<Rightarrow> Inl e
      | Inr f \<Rightarrow>
          (case method_features hash_feature ms of
             Inl e \<Rightarrow> Inl e
           | Inr fs \<Rightarrow> Inr (f # fs)))"

section \<open>The five metrics\<close>

definition truediv :: "rat \<Rightarrow> rat \<Rightarrow> error + rat" where
  "truediv a b = (if b = 0 then Inl ZeroDivisionError else Inr (a / b))"

text \<open>Metric 1, lines 73 to 76.\<close>

definition signature_similarity ::
  "method_analysis list \<Rightarrow> method_analysis list \<Rightarrow> error + rat" where
  "signature_similarity internal_methods1 internal_methods2 =
     (let signatures1 = fset_of_list (map get_method_signature internal_methods1);
          signatures2 = fset_of_list (map get_method_signature internal_methods2);
          common_signatures = signatures1 |\<inter>| signatures2
      in truediv (of_nat (fcard common_signatures))
           (of_nat (max (fcard signatures1) (fcard signatures2))))"

text \<open>
  Metric 2, lines 87 to 93. The generator inside \<^verbatim>\<open>max\<close> computes one quotient per
  feature set of the second list, in order; \<^verbatim>\<open>max(..., default=0)\<close> is \<open>max_default\<close>.
\<close>

fun quotients :: "token fset \<Rightarrow> token fset list \<Rightarrow> error + rat list" where
  "quotients features1 [] = Inr []"
| "quotients features1 (features2 # rest) =
     (case truediv (of_nat (fcard (features1 |\<inter>| features2)))
             (of_nat (fcard (features1 |\<union>| features2))) of
        Inl e \<Rightarrow> Inl e
      | Inr q \<Rightarrow>
          (case quotients features1 rest of
             Inl e \<Rightarrow> Inl e
           | Inr qs \<Rightarrow> Inr (q # qs)))"

definition max_default :: "rat list \<Rightarrow> rat \<Rightarrow> rat" where
  "max_default xs d = (case xs of [] \<Rightarrow> d | x # rest \<Rightarrow> fold max rest x)"

fun total_similarity ::
  "token fset list \<Rightarrow> token fset list \<Rightarrow> rat \<Rightarrow> error + rat" where
  "total_similarity [] method_features2 running = Inr running"
| "total_similarity (features1 # rest) method_features2 running =
     (case quotients features1 method_features2 of
        Inl e \<Rightarrow> Inl e
      | Inr qs \<Rightarrow> total_similarity rest method_features2 (running + max_default qs 0))"

definition avg_similarity :: "token fset list \<Rightarrow> token fset list \<Rightarrow> error + rat" where
  "avg_similarity method_features1 method_features2 =
     (case total_similarity method_features1 method_features2 0 of
        Inl e \<Rightarrow> Inl e
      | Inr total_sum \<Rightarrow>
          if method_features1 \<noteq> [] then truediv total_sum (of_nat (length method_features1))
          else Inr 0)"

text \<open>Lines 84 to 93 together: extraction for both lists, then the metric.\<close>

definition feature_similarity ::
  "(string \<Rightarrow> token) \<Rightarrow> method_analysis list \<Rightarrow> method_analysis list \<Rightarrow> error + rat" where
  "feature_similarity hash_feature internal_methods1 internal_methods2 =
     (case method_features hash_feature internal_methods1 of
        Inl e \<Rightarrow> Inl e
      | Inr method_features1 \<Rightarrow>
          (case method_features hash_feature internal_methods2 of
             Inl e \<Rightarrow> Inl e
           | Inr method_features2 \<Rightarrow> avg_similarity method_features1 method_features2))"

text \<open>Metric 3, lines 101 to 104.\<close>

definition class_similarity ::
  "method_analysis list \<Rightarrow> method_analysis list \<Rightarrow> error + rat" where
  "class_similarity internal_methods1 internal_methods2 =
     (let classes1 = fset_of_list (map class_name internal_methods1);
          classes2 = fset_of_list (map class_name internal_methods2);
          common_classes = classes1 |\<inter>| classes2
      in truediv (of_nat (fcard common_classes))
           (of_nat (max (fcard classes1) (fcard classes2))))"

text \<open>
  Metrics 4 and 5, lines 112 to 119 and 124 to 131. \<open>average\<close> is
  \<^verbatim>\<open>sum(xs) / len(xs) if xs else 0\<close> and \<open>min_max_ratio\<close> is
  \<^verbatim>\<open>min(a, b) / max(a, b) if max(a, b) > 0 else 1\<close>.
\<close>

definition average :: "nat list \<Rightarrow> error + rat" where
  "average xs =
     (if xs \<noteq> [] then truediv (of_nat (sum_list xs)) (of_nat (length xs)) else Inr 0)"

definition min_max_ratio :: "rat \<Rightarrow> rat \<Rightarrow> error + rat" where
  "min_max_ratio a b = (if max a b > 0 then truediv (min a b) (max a b) else Inr 1)"

definition length_similarity ::
  "method_analysis list \<Rightarrow> method_analysis list \<Rightarrow> error + rat" where
  "length_similarity internal_methods1 internal_methods2 =
     (case average (map get_length internal_methods1) of
        Inl e \<Rightarrow> Inl e
      | Inr avg_length1 \<Rightarrow>
          (case average (map get_length internal_methods2) of
             Inl e \<Rightarrow> Inl e
           | Inr avg_length2 \<Rightarrow> min_max_ratio avg_length1 avg_length2))"

definition bb_similarity ::
  "method_analysis list \<Rightarrow> method_analysis list \<Rightarrow> error + rat" where
  "bb_similarity internal_methods1 internal_methods2 =
     (case average (map (\<lambda>m. length (get_basic_blocks m)) internal_methods1) of
        Inl e \<Rightarrow> Inl e
      | Inr avg_bb1 \<Rightarrow>
          (case average (map (\<lambda>m. length (get_basic_blocks m)) internal_methods2) of
             Inl e \<Rightarrow> Inl e
           | Inr avg_bb2 \<Rightarrow> min_max_ratio avg_bb1 avg_bb2))"

section \<open>The comparison\<close>

text \<open>
  Lines 71 to 136, in the order the program evaluates them; the first exception ends the
  run.
\<close>

definition compare_metrics ::
  "(string \<Rightarrow> token) \<Rightarrow> method_analysis list \<Rightarrow> method_analysis list \<Rightarrow> error + scores" where
  "compare_metrics hash_feature internal_methods1 internal_methods2 =
     (case signature_similarity internal_methods1 internal_methods2 of
        Inl e \<Rightarrow> Inl e
      | Inr signature_sim \<Rightarrow>
     (case feature_similarity hash_feature internal_methods1 internal_methods2 of
        Inl e \<Rightarrow> Inl e
      | Inr avg_sim \<Rightarrow>
     (case class_similarity internal_methods1 internal_methods2 of
        Inl e \<Rightarrow> Inl e
      | Inr class_sim \<Rightarrow>
     (case length_similarity internal_methods1 internal_methods2 of
        Inl e \<Rightarrow> Inl e
      | Inr length_sim \<Rightarrow>
     (case bb_similarity internal_methods1 internal_methods2 of
        Inl e \<Rightarrow> Inl e
      | Inr bb_sim \<Rightarrow>
          Inr \<lparr>signature_score = signature_sim, feature_score = avg_sim,
               class_score = class_sim, length_score = length_sim, bb_score = bb_sim,
               overall_score =
                 (signature_sim + avg_sim + class_sim + length_sim + bb_sim) / 5\<rparr>)))))"

text \<open>
  \<^verbatim>\<open>compare_apk_code\<close> from the two filtered lists of lines 62 and 63 on (loading the
  packages and filtering their methods come before). Lines 65 to 69 print the method at
  \<^verbatim>\<open>show_index = 64\<close> of the first list, which raises when that list has 64 methods or
  fewer.
\<close>

definition compare_apk_code ::
  "(string \<Rightarrow> token) \<Rightarrow> method_analysis list \<Rightarrow> method_analysis list \<Rightarrow> error + scores" where
  "compare_apk_code hash_feature internal_methods1 internal_methods2 =
     (let show_index = 64
      in if show_index < length internal_methods1
         then compare_metrics hash_feature internal_methods1 internal_methods2
         else Inl IndexError)"

section \<open>Reference notions\<close>

text \<open>
  The notions the properties below are stated with: the arithmetic mean (0 for no values),
  the Jaccard quotient of two feature sets (0 for two empty sets), the best match of one
  feature set in a list
  (0 for the empty list), the string-load instructions a method's extraction visits,
  whether all of them resolve, and the tokens of the four families.
\<close>

definition mean :: "rat list \<Rightarrow> rat" where
  "mean xs = (if xs = [] then 0 else sum_list xs / of_nat (length xs))"

definition jaccard :: "token fset \<Rightarrow> token fset \<Rightarrow> rat" where
  "jaccard A B =
     (if A |\<union>| B = {||} then 0
      else of_nat (fcard (A |\<inter>| B)) / of_nat (fcard (A |\<union>| B)))"

definition best_match :: "token fset \<Rightarrow> token fset list \<Rightarrow> rat" where
  "best_match A Bs = (if Bs = [] then 0 else Max (jaccard A ` set Bs))"

definition string_loads :: "method_analysis \<Rightarrow> instruction list" where
  "string_loads m =
     (if code m
      then filter (\<lambda>i. get_name i \<in> set [''const-string'', ''const-string/jumbo''])
             (get_instructions m)
      else [])"

definition resolves :: "method_analysis \<Rightarrow> bool" where
  "resolves m = list_all (\<lambda>i. get_cm_string i \<noteq> None) (string_loads m)"

definition feature_tokens :: "(string \<Rightarrow> token) \<Rightarrow> method_analysis \<Rightarrow> token fset" where
  "feature_tokens h m =
     fset_of_list
       (h (''signature:'' @ full_name m)
        # map (\<lambda>c. h (''api_call:'' @ c)) (get_xref_to m)
        @ map (\<lambda>b. h (''block:'' @ str_nat (length b))) (get_basic_blocks m)
        @ map (\<lambda>s. h (''string:'' @ s)) (List.map_filter get_cm_string (string_loads m)))"

text \<open>Sample methods of the compared namespace, for the concrete instances below.\<close>

definition degenerate_method :: "string \<Rightarrow> method_analysis" where
  "degenerate_method n =
     \<lparr>full_name = n, class_name = ''Lwisemate/ai/A;'', get_xref_to = [],
      get_basic_blocks = [], code = False, get_instructions = [], get_length = 0\<rparr>"

definition const_string :: "string option \<Rightarrow> instruction" where
  "const_string r = \<lparr>get_name = ''const-string'', get_cm_string = r\<rparr>"

definition return_void :: instruction where
  "return_void = \<lparr>get_name = ''return-void'', get_cm_string = None\<rparr>"

definition method_f :: method_analysis where
  "method_f =
     \<lparr>full_name = ''Lwisemate/ai/A; f ()V'', class_name = ''Lwisemate/ai/A;'',
      get_xref_to = [''Ljava/lang/Object; <init> ()V''],
      get_basic_blocks = [[const_string (Some ''hi''), return_void]],
      code = True, get_instructions = [const_string (Some ''hi''), return_void],
      get_length = 4\<rparr>"

definition method_f_modified :: method_analysis where
  "method_f_modified =
     \<lparr>full_name = ''Lwisemate/ai/A; f ()V'', class_name = ''Lwisemate/ai/A;'',
      get_xref_to = [''Ljava/lang/Object; <init> ()V''],
      get_basic_blocks = [[const_string (Some ''ho''), return_void]],
      code = True, get_instructions = [const_string (Some ''ho''), return_void],
      get_length = 4\<rparr>"

definition method_k :: method_analysis where
  "method_k =
     \<lparr>full_name = ''Lwisemate/ai/B; k ()V'', class_name = ''Lwisemate/ai/B;'',
      get_xref_to = [], get_basic_blocks = [[return_void]],
      code = True, get_instructions = [return_void], get_length = 2\<rparr>"

definition many_methods :: "method_analysis list" where
  "many_methods =
     map (\<lambda>i. degenerate_method (''Lwisemate/ai/A; m'' @ str_nat i @ '' ()V'')) [0..<65]"


section \<open>Auxiliary facts\<close>

lemma truediv_Inr: "b \<noteq> 0 \<Longrightarrow> truediv a b = Inr (a / b)"
  by (simp add: truediv_def)

lemma fcard_fimage_pos: "xs \<noteq> [] \<Longrightarrow> 0 < fcard (f |`| fset_of_list xs)"
proof -
  assume "xs \<noteq> []"
  then have "f |`| fset_of_list xs \<noteq> {||}" by (cases xs) simp_all
  then show ?thesis by (simp add: neq0_conv [symmetric] del: neq0_conv)
qed

lemma of_nat_sum_list_rat: "(of_nat (sum_list xs) :: rat) = sum_list (map of_nat xs)"
  by (induction xs) simp_all

lemma average_mean: "average xs = Inr (mean (map of_nat xs))"
  by (simp add: average_def mean_def truediv_def of_nat_sum_list_rat)

lemma mean_nonneg: "0 \<le> mean (map of_nat (xs :: nat list))"
  by (auto simp: mean_def intro!: divide_nonneg_nonneg sum_list_nonneg)

lemma min_max_ratio_eq:
  "0 \<le> a \<Longrightarrow> 0 \<le> b \<Longrightarrow>
   min_max_ratio a b = Inr (if a = 0 \<and> b = 0 then 1 else min a b / max a b)"
  by (auto simp: min_max_ratio_def truediv_def max_def)

section \<open>Signature and class similarity\<close>

text \<open>
  C2. When at least one of the two filtered lists is non-empty, signature similarity is
  the number of common \<^verbatim>\<open>full_name\<close> signatures divided by the larger of the two
  signature-set sizes, and class similarity is the same quotient over the sets of
  \<^verbatim>\<open>class_name\<close> values; neither division fails.
\<close>

theorem signature_class_similarity_formula:
  assumes "ms1 \<noteq> [] \<or> ms2 \<noteq> []"
  shows "signature_similarity ms1 ms2 =
           Inr (of_nat (fcard ((full_name |`| fset_of_list ms1) |\<inter>| (full_name |`| fset_of_list ms2)))
                / of_nat (max (fcard (full_name |`| fset_of_list ms1))
                              (fcard (full_name |`| fset_of_list ms2))))
       \<and> class_similarity ms1 ms2 =
           Inr (of_nat (fcard ((class_name |`| fset_of_list ms1) |\<inter>| (class_name |`| fset_of_list ms2)))
                / of_nat (max (fcard (class_name |`| fset_of_list ms1))
                              (fcard (class_name |`| fset_of_list ms2))))"
proof -
  have pos: "0 < max (fcard (f |`| fset_of_list ms1)) (fcard (f |`| fset_of_list ms2))"
    for f :: "method_analysis \<Rightarrow> string"
  proof (cases "ms1 = []")
    case False
    then have "0 < fcard (f |`| fset_of_list ms1)" by (rule fcard_fimage_pos)
    then show ?thesis by (simp add: max_def)
  next
    case True
    with assms have "0 < fcard (f |`| fset_of_list ms2)" by (simp add: fcard_fimage_pos)
    then show ?thesis by (simp add: max_def)
  qed
  have nz: "(of_nat (max a b) :: rat) \<noteq> 0" if "0 < max a b" for a b :: nat
    using that by (simp add: max_def split: if_splits)
  have "signature_similarity ms1 ms2 =
          truediv (of_nat (fcard ((full_name |`| fset_of_list ms1) |\<inter>| (full_name |`| fset_of_list ms2))))
            (of_nat (max (fcard (full_name |`| fset_of_list ms1))
                         (fcard (full_name |`| fset_of_list ms2))))"
    by (simp add: signature_similarity_def Let_def get_method_signature_def [abs_def])
  also have "\<dots> =
           Inr (of_nat (fcard ((full_name |`| fset_of_list ms1) |\<inter>| (full_name |`| fset_of_list ms2)))
                / of_nat (max (fcard (full_name |`| fset_of_list ms1))
                              (fcard (full_name |`| fset_of_list ms2))))"
    by (rule truediv_Inr [OF nz [OF pos]])
  finally have s: "signature_similarity ms1 ms2 =
           Inr (of_nat (fcard ((full_name |`| fset_of_list ms1) |\<inter>| (full_name |`| fset_of_list ms2)))
                / of_nat (max (fcard (full_name |`| fset_of_list ms1))
                              (fcard (full_name |`| fset_of_list ms2))))" .
  have "class_similarity ms1 ms2 =
          truediv (of_nat (fcard ((class_name |`| fset_of_list ms1) |\<inter>| (class_name |`| fset_of_list ms2))))
            (of_nat (max (fcard (class_name |`| fset_of_list ms1))
                         (fcard (class_name |`| fset_of_list ms2))))"
    by (simp add: class_similarity_def Let_def)
  also have "\<dots> =
           Inr (of_nat (fcard ((class_name |`| fset_of_list ms1) |\<inter>| (class_name |`| fset_of_list ms2)))
                / of_nat (max (fcard (class_name |`| fset_of_list ms1))
                              (fcard (class_name |`| fset_of_list ms2))))"
    by (rule truediv_Inr [OF nz [OF pos]])
  finally have c: "class_similarity ms1 ms2 =
           Inr (of_nat (fcard ((class_name |`| fset_of_list ms1) |\<inter>| (class_name |`| fset_of_list ms2)))
                / of_nat (max (fcard (class_name |`| fset_of_list ms1))
                              (fcard (class_name |`| fset_of_list ms2))))" .
  from s c show ?thesis by simp
qed

text \<open>
  An instance of C2: two methods of one class against one of them share one of two
  signatures and the one class.
\<close>

theorem signature_class_similarity_formula_witness:
  "signature_similarity [method_f, degenerate_method ''Lwisemate/ai/A; g ()V''] [method_f]
       = Inr (1 / 2)
   \<and> class_similarity [method_f, degenerate_method ''Lwisemate/ai/A; g ()V''] [method_f]
       = Inr 1"
  using signature_class_similarity_formula
          [of "[method_f, degenerate_method ''Lwisemate/ai/A; g ()V'']" "[method_f]"]
  by (simp add: method_f_def degenerate_method_def fcard_finsert_if)

text \<open>
  C3. With both filtered lists empty, the program divides 0 by \<^verbatim>\<open>max(0, 0)\<close> in
  signature similarity and again in class similarity: both raise, no sentinel is
  reported, and the comparison as a whole ends with an exception (the first one raised
  is that of the indexed print on line 66).
\<close>

theorem empty_lists_raise:
  "signature_similarity [] [] = Inl ZeroDivisionError
   \<and> class_similarity [] [] = Inl ZeroDivisionError
   \<and> compare_metrics id [] [] = Inl ZeroDivisionError
   \<and> compare_apk_code id [] [] = Inl IndexError"
  by (simp add: signature_similarity_def class_similarity_def truediv_def
        compare_metrics_def compare_apk_code_def)

section \<open>Length and basic-block similarity\<close>

text \<open>
  C4. Length similarity is the smaller of the two mean method lengths divided by the
  larger, and basic-block-count similarity is the same quotient over the two mean
  numbers of basic blocks per method; each is 1 when both means are 0, which includes the
  case of two empty lists. Neither computation fails.
\<close>

theorem length_bb_similarity_formula:
  "length_similarity ms1 ms2 =
     Inr (if mean (map (of_nat \<circ> get_length) ms1) = 0
             \<and> mean (map (of_nat \<circ> get_length) ms2) = 0 then 1
          else min (mean (map (of_nat \<circ> get_length) ms1)) (mean (map (of_nat \<circ> get_length) ms2))
             / max (mean (map (of_nat \<circ> get_length) ms1)) (mean (map (of_nat \<circ> get_length) ms2)))
   \<and> bb_similarity ms1 ms2 =
     Inr (if mean (map (of_nat \<circ> length \<circ> get_basic_blocks) ms1) = 0
             \<and> mean (map (of_nat \<circ> length \<circ> get_basic_blocks) ms2) = 0 then 1
          else min (mean (map (of_nat \<circ> length \<circ> get_basic_blocks) ms1))
                   (mean (map (of_nat \<circ> length \<circ> get_basic_blocks) ms2))
             / max (mean (map (of_nat \<circ> length \<circ> get_basic_blocks) ms1))
                   (mean (map (of_nat \<circ> length \<circ> get_basic_blocks) ms2)))
   \<and> length_similarity [] [] = Inr 1
   \<and> bb_similarity [] [] = Inr 1"
proof -
  have l: "length_similarity ms1 ms2 =
     Inr (if mean (map (of_nat \<circ> get_length) ms1) = 0
             \<and> mean (map (of_nat \<circ> get_length) ms2) = 0 then 1
          else min (mean (map (of_nat \<circ> get_length) ms1)) (mean (map (of_nat \<circ> get_length) ms2))
             / max (mean (map (of_nat \<circ> get_length) ms1)) (mean (map (of_nat \<circ> get_length) ms2)))"
    using mean_nonneg [of "map get_length ms1"] mean_nonneg [of "map get_length ms2"]
    by (simp add: length_similarity_def average_mean min_max_ratio_eq)
  have b: "bb_similarity ms1 ms2 =
     Inr (if mean (map (of_nat \<circ> length \<circ> get_basic_blocks) ms1) = 0
             \<and> mean (map (of_nat \<circ> length \<circ> get_basic_blocks) ms2) = 0 then 1
          else min (mean (map (of_nat \<circ> length \<circ> get_basic_blocks) ms1))
                   (mean (map (of_nat \<circ> length \<circ> get_basic_blocks) ms2))
             / max (mean (map (of_nat \<circ> length \<circ> get_basic_blocks) ms1))
                   (mean (map (of_nat \<circ> length \<circ> get_basic_blocks) ms2)))"
    using mean_nonneg [of "map (\<lambda>m. length (get_basic_blocks m)) ms1"]
          mean_nonneg [of "map (\<lambda>m. length (get_basic_blocks m)) ms2"]
    by (simp add: bb_similarity_def average_mean min_max_ratio_eq comp_def)
  have e: "length_similarity [] [] = Inr 1" "bb_similarity [] [] = Inr 1"
    by (simp_all add: length_similarity_def bb_similarity_def average_def min_max_ratio_def)
  from l b e show ?thesis by simp
qed

section \<open>Symmetry\<close>

text \<open>
  C6. Signature similarity, class similarity, length similarity and basic-block-count
  similarity do not depend on which list is the first: swapping the two lists gives the
  same outcome, value or exception.
\<close>

theorem four_metrics_symmetric:
  "signature_similarity ms1 ms2 = signature_similarity ms2 ms1
   \<and> class_similarity ms1 ms2 = class_similarity ms2 ms1
   \<and> length_similarity ms1 ms2 = length_similarity ms2 ms1
   \<and> bb_similarity ms1 ms2 = bb_similarity ms2 ms1"
  by (simp add: signature_similarity_def class_similarity_def Let_def finter_commute
        max.commute length_similarity_def bb_similarity_def average_mean min_max_ratio_def
        min.commute)

section \<open>Properties of feature extraction\<close>

lemma fold_finsert: "fold (\<lambda>x fs. finsert (g x) fs) xs A = fset_of_list (map g xs) |\<union>| A"
  by (induction xs arbitrary: A) auto

lemma string_features_eq:
  "string_features h insns A =
     (if list_all (\<lambda>i. get_cm_string i \<noteq> None)
           (filter (\<lambda>i. get_name i \<in> set [''const-string'', ''const-string/jumbo'']) insns)
      then Inr (A |\<union>| fset_of_list (map (\<lambda>s. h (''string:'' @ s))
                  (List.map_filter get_cm_string
                     (filter (\<lambda>i. get_name i \<in> set [''const-string'', ''const-string/jumbo''])
                        insns))))
      else Inl ResolutionError)"
proof (induction insns arbitrary: A)
  case Nil
  show ?case by (simp add: map_filter_simps)
next
  case (Cons i rest)
  show ?case
  proof (cases "get_name i \<in> set [''const-string'', ''const-string/jumbo'']")
    case False
    then show ?thesis using Cons.IH [of A] by simp
  next
    case True
    show ?thesis
    proof (cases "get_cm_string i")
      case None
      with True show ?thesis by simp
    next
      case (Some s)
      with True show ?thesis
        using Cons.IH [of "finsert (h (''string:'' @ s)) A"]
        by (auto simp: map_filter_simps)
    qed
  qed
qed

lemma get_method_features_eq:
  "get_method_features h m =
     (if resolves m then Inr (feature_tokens h m) else Inl ResolutionError)"
proof (cases "code m")
  case False
  then show ?thesis
    by (simp add: get_method_features_def resolves_def string_loads_def feature_tokens_def
          fold_finsert map_filter_simps funion_commute funion_assoc)
next
  case True
  then show ?thesis
    by (simp add: get_method_features_def resolves_def string_loads_def feature_tokens_def
          fold_finsert string_features_eq funion_ac)
qed

lemma signature_token_member: "h (''signature:'' @ full_name m) |\<in>| feature_tokens h m"
  unfolding feature_tokens_def fset_of_list_simps by (rule finsertI1)

lemma feature_tokens_nonempty: "feature_tokens h m \<noteq> {||}"
  using signature_token_member [of h m] by auto








text \<open>
  C10. Whenever extraction yields a feature set, the set contains the hashed
  \<^verbatim>\<open>signature:\<close> token of the method and so is not empty; for a degenerate method
  (no call target, no basic block, no string load) extraction yields exactly that one
  token.
\<close>

theorem signature_token_always_present:
  "(get_method_features h m = Inr F \<longrightarrow>
      h (''signature:'' @ full_name m) |\<in>| F \<and> F \<noteq> {||})
   \<and> (get_xref_to m = [] \<and> get_basic_blocks m = [] \<and> string_loads m = [] \<longrightarrow>
      get_method_features h m = Inr {|h (''signature:'' @ full_name m)|})"
proof -
  have a: "h (''signature:'' @ full_name m) |\<in>| F \<and> F \<noteq> {||}"
    if "get_method_features h m = Inr F"
  proof -
    from that have "F = feature_tokens h m"
      by (simp add: get_method_features_eq split: if_splits)
    then have "h (''signature:'' @ full_name m) |\<in>| F"
      using signature_token_member [of h m] by simp
    then show ?thesis by auto
  qed
  have b: "get_method_features h m = Inr {|h (''signature:'' @ full_name m)|}"
    if "get_xref_to m = [] \<and> get_basic_blocks m = [] \<and> string_loads m = []"
    using that
    by (simp add: get_method_features_eq resolves_def feature_tokens_def map_filter_simps)
  from a b show ?thesis by blast
qed

theorem signature_token_always_present_witness:
  "get_method_features id (degenerate_method ''Lwisemate/ai/A; g ()V'')
     = Inr {|''signature:Lwisemate/ai/A; g ()V''|}
   \<and> ''signature:Lwisemate/ai/A; g ()V'' |\<in>| {|''signature:Lwisemate/ai/A; g ()V''|}
   \<and> {|''signature:Lwisemate/ai/A; g ()V''|} \<noteq> {||}"
  using signature_token_always_present
          [of id "degenerate_method ''Lwisemate/ai/A; g ()V''"
              "{|''signature:Lwisemate/ai/A; g ()V''|}"]
  by (simp add: degenerate_method_def string_loads_def)

section \<open>Best-match feature similarity\<close>

lemma jaccard_quotient:
  "jaccard A B = of_nat (fcard (A |\<inter>| B)) / of_nat (fcard (A |\<union>| B))"
  by (simp add: jaccard_def)

lemma jaccard_bounds: "0 \<le> jaccard A B \<and> jaccard A B \<le> 1"
proof -
  have "fcard (A |\<inter>| B) \<le> fcard (A |\<union>| B)"
    by (rule fcard_mono) auto
  then have le: "(of_nat (fcard (A |\<inter>| B)) :: rat) \<le> of_nat (fcard (A |\<union>| B))"
    by (simp only: of_nat_le_iff)
  have "jaccard A B \<le> 1"
  proof (cases "fcard (A |\<union>| B) = 0")
    case True
    then show ?thesis by (simp add: jaccard_quotient)
  next
    case False
    then have "0 < fcard (A |\<union>| B)" by (simp only: neq0_conv)
    then have "(0::rat) < of_nat (fcard (A |\<union>| B))" by (simp only: of_nat_0_less_iff)
    with le show ?thesis unfolding jaccard_quotient by (simp only: divide_le_eq_1_pos)
  qed
  moreover have "0 \<le> jaccard A B"
    unfolding jaccard_quotient by (rule divide_nonneg_nonneg) simp_all
  ultimately show ?thesis by simp
qed

lemma jaccard_self: "A \<noteq> {||} \<Longrightarrow> jaccard A A = 1"
  by (simp add: jaccard_def)

lemma quotient_step:
  "A |\<union>| B \<noteq> {||} \<Longrightarrow>
   truediv (of_nat (fcard (A |\<inter>| B))) (of_nat (fcard (A |\<union>| B))) = Inr (jaccard A B)"
  by (simp add: truediv_def jaccard_def)

lemma quotient_step_empty:
  "A |\<union>| B = {||} \<Longrightarrow>
   truediv (of_nat (fcard (A |\<inter>| B))) (of_nat (fcard (A |\<union>| B))) = Inl ZeroDivisionError"
  by (simp add: truediv_def)

lemma quotients_eq:
  "A \<noteq> {||} \<or> {||} \<notin> set Bs \<Longrightarrow> quotients A Bs = Inr (map (jaccard A) Bs)"
proof (induction Bs)
  case Nil
  show ?case by simp
next
  case (Cons B Bs)
  from Cons.prems have "A |\<union>| B \<noteq> {||}" by auto
  then have "truediv (of_nat (fcard (A |\<inter>| B))) (of_nat (fcard (A |\<union>| B))) = Inr (jaccard A B)"
    by (rule quotient_step)
  moreover from Cons have "quotients A Bs = Inr (map (jaccard A) Bs)" by auto
  ultimately show ?case by simp
qed

lemma quotients_Inr: "quotients A Bs = Inr qs \<Longrightarrow> qs = map (jaccard A) Bs"
proof (induction Bs arbitrary: qs)
  case Nil
  then show ?case by simp
next
  case (Cons B Bs)
  show ?case
  proof (cases "A |\<union>| B = {||}")
    case True
    then have "truediv (of_nat (fcard (A |\<inter>| B))) (of_nat (fcard (A |\<union>| B)))
                 = Inl ZeroDivisionError"
      by (rule quotient_step_empty)
    with Cons.prems show ?thesis by simp
  next
    case False
    with Cons.prems Cons.IH show ?thesis
      by (auto simp: quotient_step split: sum.splits)
  qed
qed

lemma max_default_best_match: "max_default (map (jaccard A) Bs) 0 = best_match A Bs"
proof (cases Bs)
  case Nil
  then show ?thesis by (simp add: max_default_def best_match_def)
next
  case (Cons B rest)
  have "fold max (map (jaccard A) rest) (jaccard A B)
          = Max (set (jaccard A B # map (jaccard A) rest))"
    by (rule Max.set_eq_fold [symmetric])
  with Cons show ?thesis by (simp add: max_default_def best_match_def)
qed

lemma best_match_bounds: "0 \<le> best_match A Bs \<and> best_match A Bs \<le> 1"
proof (cases "Bs = []")
  case True
  then show ?thesis by (simp add: best_match_def)
next
  case False
  then have "Max (jaccard A ` set Bs) \<in> jaccard A ` set Bs"
    by (intro Max_in) simp_all
  then obtain B where "Max (jaccard A ` set Bs) = jaccard A B" by auto
  with False jaccard_bounds [of A B] show ?thesis by (simp add: best_match_def)
qed

lemma best_match_self: "A \<noteq> {||} \<Longrightarrow> A \<in> set Bs \<Longrightarrow> best_match A Bs = 1"
proof -
  assume ne: "A \<noteq> {||}" and mem: "A \<in> set Bs"
  then have "Bs \<noteq> []" by auto
  from mem have "jaccard A A \<le> Max (jaccard A ` set Bs)"
    by (intro Max_ge) simp_all
  with ne have "1 \<le> best_match A Bs"
    using \<open>Bs \<noteq> []\<close> by (simp add: best_match_def jaccard_self)
  with best_match_bounds [of A Bs] show ?thesis by simp
qed

lemma total_similarity_Inr:
  "total_similarity As Bs acc = Inr t \<Longrightarrow>
   t = acc + sum_list (map (\<lambda>A. best_match A Bs) As)"
proof (induction As arbitrary: acc)
  case Nil
  then show ?case by simp
next
  case (Cons A As)
  from Cons.prems obtain qs where q: "quotients A Bs = Inr qs"
    by (cases "quotients A Bs") simp_all
  then have "qs = map (jaccard A) Bs" by (rule quotients_Inr)
  with q Cons.prems have "total_similarity As Bs (acc + best_match A Bs) = Inr t"
    by (simp add: max_default_best_match)
  then have "t = acc + best_match A Bs + sum_list (map (\<lambda>A. best_match A Bs) As)"
    by (rule Cons.IH)
  then show ?case by simp
qed

lemma total_similarity_eq:
  "{||} \<notin> set As \<Longrightarrow>
   total_similarity As Bs acc = Inr (acc + sum_list (map (\<lambda>A. best_match A Bs) As))"
proof (induction As arbitrary: acc)
  case Nil
  show ?case by simp
next
  case (Cons A As)
  from Cons.prems have "quotients A Bs = Inr (map (jaccard A) Bs)"
    by (intro quotients_eq) auto
  moreover from Cons have
    "total_similarity As Bs (acc + best_match A Bs)
       = Inr (acc + best_match A Bs + sum_list (map (\<lambda>A. best_match A Bs) As))"
    by auto
  ultimately show ?case by (simp add: max_default_best_match add.assoc)
qed

lemma avg_similarity_Inr:
  "avg_similarity As Bs = Inr v \<Longrightarrow> v = mean (map (\<lambda>A. best_match A Bs) As)"
proof -
  assume a: "avg_similarity As Bs = Inr v"
  then obtain t where t: "total_similarity As Bs 0 = Inr t"
    by (cases "total_similarity As Bs 0") (simp_all add: avg_similarity_def)
  then have "t = sum_list (map (\<lambda>A. best_match A Bs) As)"
    using total_similarity_Inr [of As Bs 0 t] by simp
  with a t show ?thesis
    by (auto simp: avg_similarity_def mean_def truediv_def split: if_splits)
qed

lemma avg_similarity_eq:
  "{||} \<notin> set As \<Longrightarrow> avg_similarity As Bs = Inr (mean (map (\<lambda>A. best_match A Bs) As))"
  by (simp add: avg_similarity_def total_similarity_eq mean_def truediv_def)

lemma method_features_eq:
  "method_features h ms =
     (if list_all resolves ms then Inr (map (feature_tokens h) ms) else Inl ResolutionError)"
  by (induction ms) (simp_all add: get_method_features_eq)

lemma feature_similarity_eq:
  assumes "list_all resolves ms1" and "list_all resolves ms2"
  shows "feature_similarity h ms1 ms2 =
           Inr (mean (map (\<lambda>m1. best_match (feature_tokens h m1) (map (feature_tokens h) ms2)) ms1))"
proof -
  have "{||} \<notin> set (map (feature_tokens h) ms1)"
    using feature_tokens_nonempty [of h] by auto
  then have "avg_similarity (map (feature_tokens h) ms1) (map (feature_tokens h) ms2)
      = Inr (mean (map (\<lambda>A. best_match A (map (feature_tokens h) ms2)) (map (feature_tokens h) ms1)))"
    by (rule avg_similarity_eq)
  with assms show ?thesis
    by (simp add: feature_similarity_def method_features_eq comp_def)
qed

lemma mean_bounds:
  "list_all (\<lambda>x. 0 \<le> x \<and> x \<le> 1) xs \<Longrightarrow> 0 \<le> mean xs \<and> mean xs \<le> 1"
proof -
  assume a: "list_all (\<lambda>x. 0 \<le> x \<and> x \<le> 1) xs"
  then have s: "0 \<le> sum_list xs \<and> sum_list xs \<le> of_nat (length xs)"
    by (induction xs) auto
  show ?thesis
  proof (cases "xs = []")
    case True
    then show ?thesis by (simp add: mean_def)
  next
    case False
    then have "(0::rat) < of_nat (length xs)" by simp
    with s False show ?thesis
      by (simp add: mean_def divide_le_eq_1_pos)
  qed
qed

lemma mean_ones: "xs \<noteq> [] \<Longrightarrow> list_all (\<lambda>x. x = 1) xs \<Longrightarrow> mean xs = 1"
proof -
  assume ne: "xs \<noteq> []" and a: "list_all (\<lambda>x. x = 1) xs"
  from a have "sum_list xs = of_nat (length xs)"
    by (induction xs) auto
  with ne show ?thesis by (simp add: mean_def)
qed

lemma mean_zeros: "list_all (\<lambda>x. x = 0) xs \<Longrightarrow> mean xs = 0"
proof -
  assume "list_all (\<lambda>x. x = 0) xs"
  then have "sum_list xs = 0" by (induction xs) auto
  then show ?thesis by (simp add: mean_def)
qed

text \<open>
  C1. For two filtered lists whose string loads all return a string, the metric is the
  arithmetic mean, over the methods of the first list, of the largest Jaccard quotient of
  the method's feature set with the feature set of a method of the second list, where the
  quotient of two empty sets counts as 0; it is 0 when the second list is empty (every
  per-method maximum is 0) and 0 when the first list is empty. No extracted feature set is
  empty (the signature token is always there), so the program never meets an empty union
  and its division never fails.
\<close>

theorem best_match_feature_similarity:
  assumes "list_all resolves ms1" and "list_all resolves ms2"
  shows "feature_similarity h ms1 ms2 =
           Inr (mean (map (\<lambda>m1. best_match (feature_tokens h m1) (map (feature_tokens h) ms2)) ms1))
       \<and> feature_similarity h ms1 [] = Inr 0
       \<and> feature_similarity h [] ms2 = Inr 0
       \<and> {||} \<notin> set (map (feature_tokens h) (ms1 @ ms2))"
proof -
  have d: "{||} \<notin> set (map (feature_tokens h) (ms1 @ ms2))"
    using feature_tokens_nonempty [of h] by auto
  have a: "feature_similarity h ms1 ms2 =
           Inr (mean (map (\<lambda>m1. best_match (feature_tokens h m1) (map (feature_tokens h) ms2)) ms1))"
    using assms by (rule feature_similarity_eq)
  have "feature_similarity h ms1 [] =
           Inr (mean (map (\<lambda>m1. best_match (feature_tokens h m1) (map (feature_tokens h) [])) ms1))"
    using assms(1) by (intro feature_similarity_eq) simp_all
  moreover have "mean (map (\<lambda>m1. best_match (feature_tokens h m1) (map (feature_tokens h) [])) ms1) = 0"
    by (rule mean_zeros) (simp add: best_match_def list_all_iff)
  ultimately have b: "feature_similarity h ms1 [] = Inr 0" by simp
  have "feature_similarity h [] ms2 =
           Inr (mean (map (\<lambda>m1. best_match (feature_tokens h m1) (map (feature_tokens h) ms2)) []))"
    using assms(2) by (intro feature_similarity_eq) simp_all
  then have c: "feature_similarity h [] ms2 = Inr 0" by (simp add: mean_def)
  from a b c d show ?thesis by simp
qed

lemma tokens_f:
  "feature_tokens id method_f =
     {|''signature:Lwisemate/ai/A; f ()V'', ''api_call:Ljava/lang/Object; <init> ()V'',
       ''block:2'', ''string:hi''|}"
  by (simp add: string_loads_def feature_tokens_def method_f_def
        const_string_def return_void_def map_filter_simps str_nat.simps)

lemma tokens_fm:
  "feature_tokens id method_f_modified =
     {|''signature:Lwisemate/ai/A; f ()V'', ''api_call:Ljava/lang/Object; <init> ()V'',
       ''block:2'', ''string:ho''|}"
  by (simp add: string_loads_def feature_tokens_def method_f_modified_def
        const_string_def return_void_def map_filter_simps str_nat.simps)

lemma tokens_k:
  "feature_tokens id method_k = {|''signature:Lwisemate/ai/B; k ()V'', ''block:1''|}"
  by (simp add: string_loads_def feature_tokens_def method_k_def
        const_string_def return_void_def map_filter_simps str_nat.simps)

text \<open>
  An instance: a method against its modified copy (three of five tokens shared) and a
  method with no token in common give the mean of 3/5 and 0.
\<close>

theorem best_match_feature_similarity_witness:
  "feature_similarity id [method_f, method_k] [method_f_modified] = Inr (3 / 10)
   \<and> feature_similarity id [method_f, method_k] [] = Inr 0
   \<and> feature_similarity id [] [method_f_modified] = Inr 0
   \<and> {||} \<notin> set (map (feature_tokens id) ([method_f, method_k] @ [method_f_modified]))"
proof -
  have r: "list_all resolves [method_f, method_k]" "list_all resolves [method_f_modified]"
    by (simp_all add: resolves_def string_loads_def method_f_def method_k_def
          method_f_modified_def const_string_def return_void_def)
  have j1: "jaccard (feature_tokens id method_f) (feature_tokens id method_f_modified) = 3 / 5"
    by (simp add: tokens_f tokens_fm jaccard_def fcard_finsert_if fcard_fempty)
  have j2: "jaccard (feature_tokens id method_k) (feature_tokens id method_f_modified) = 0"
    by (simp add: tokens_k tokens_fm jaccard_def fcard_finsert_if fcard_fempty)
  show ?thesis
    using best_match_feature_similarity [OF r, of id] by (simp add: mean_def best_match_def j1 j2)
qed

lemma resolves_degenerate: "resolves (degenerate_method n)"
  by (simp add: resolves_def string_loads_def degenerate_method_def)

lemma feature_tokens_degenerate:
  "feature_tokens h (degenerate_method n) = {|h (''signature:'' @ n)|}"
  by (simp add: feature_tokens_def string_loads_def degenerate_method_def map_filter_simps)

lemma jaccard_singletons: "jaccard {|a|} {|b|} = (if a = b then 1 else 0)"
  by (simp add: jaccard_def fcard_finsert_if fcard_fempty)

text \<open>
  C7. The best-match metric depends on the direction. Take three methods whose signature
  tokens are pairwise different and which have no other token, so that their feature sets
  do not overlap: the one-method list against the three-method list scores 1, the
  three-method list against the one-method list scores 1/3. The hypothesis asks of the
  hash only that it tells the three signature strings apart.
\<close>

theorem best_match_not_symmetric:
  assumes "distinct [h (''signature:'' @ n1), h (''signature:'' @ n2), h (''signature:'' @ n3)]"
  shows "feature_similarity h [degenerate_method n1]
           [degenerate_method n1, degenerate_method n2, degenerate_method n3] = Inr 1
       \<and> feature_similarity h [degenerate_method n1, degenerate_method n2, degenerate_method n3]
           [degenerate_method n1] = Inr (1 / 3)
       \<and> feature_similarity h [degenerate_method n1]
           [degenerate_method n1, degenerate_method n2, degenerate_method n3]
         \<noteq> feature_similarity h [degenerate_method n1, degenerate_method n2, degenerate_method n3]
           [degenerate_method n1]"
proof -
  have r1: "list_all resolves [degenerate_method n1]"
    and r3: "list_all resolves [degenerate_method n1, degenerate_method n2, degenerate_method n3]"
    by (simp_all add: resolves_degenerate)
  have a: "feature_similarity h [degenerate_method n1]
           [degenerate_method n1, degenerate_method n2, degenerate_method n3] = Inr 1"
    using assms
    by (simp add: feature_similarity_eq [OF r1 r3] feature_tokens_degenerate mean_def
          best_match_def jaccard_singletons)
  have b: "feature_similarity h [degenerate_method n1, degenerate_method n2, degenerate_method n3]
           [degenerate_method n1] = Inr (1 / 3)"
    using assms
    by (auto simp: feature_similarity_eq [OF r3 r1] feature_tokens_degenerate mean_def
          best_match_def jaccard_singletons)
  from a b show ?thesis by simp
qed

theorem best_match_not_symmetric_witness:
  "feature_similarity id [degenerate_method ''Lwisemate/ai/A; a ()V'']
     [degenerate_method ''Lwisemate/ai/A; a ()V'', degenerate_method ''Lwisemate/ai/A; b ()V'',
      degenerate_method ''Lwisemate/ai/A; c ()V''] = Inr 1
   \<and> feature_similarity id
     [degenerate_method ''Lwisemate/ai/A; a ()V'', degenerate_method ''Lwisemate/ai/A; b ()V'',
      degenerate_method ''Lwisemate/ai/A; c ()V'']
     [degenerate_method ''Lwisemate/ai/A; a ()V''] = Inr (1 / 3)
   \<and> feature_similarity id [degenerate_method ''Lwisemate/ai/A; a ()V'']
     [degenerate_method ''Lwisemate/ai/A; a ()V'', degenerate_method ''Lwisemate/ai/A; b ()V'',
      degenerate_method ''Lwisemate/ai/A; c ()V'']
     \<noteq> feature_similarity id
     [degenerate_method ''Lwisemate/ai/A; a ()V'', degenerate_method ''Lwisemate/ai/A; b ()V'',
      degenerate_method ''Lwisemate/ai/A; c ()V'']
     [degenerate_method ''Lwisemate/ai/A; a ()V'']"
  using best_match_not_symmetric
          [of id "''Lwisemate/ai/A; a ()V''" "''Lwisemate/ai/A; b ()V''"
              "''Lwisemate/ai/A; c ()V''"]
  by simp

section \<open>Ranges, the overall score and self-comparison\<close>

lemma set_ratio_bounds:
  assumes "truediv (of_nat (fcard (A |\<inter>| B))) (of_nat (max (fcard A) (fcard B))) = Inr v"
  shows "0 \<le> v \<and> v \<le> 1"
proof -
  from assms have nz: "(of_nat (max (fcard A) (fcard B)) :: rat) \<noteq> 0"
    and v: "v = of_nat (fcard (A |\<inter>| B)) / of_nat (max (fcard A) (fcard B))"
    by (auto simp: truediv_def split: if_splits)
  have "fcard (A |\<inter>| B) \<le> fcard A" by (rule fcard_mono) auto
  then have "fcard (A |\<inter>| B) \<le> max (fcard A) (fcard B)" by simp
  then have le: "(of_nat (fcard (A |\<inter>| B)) :: rat) \<le> of_nat (max (fcard A) (fcard B))"
    by (simp only: of_nat_le_iff)
  from nz have "(0::rat) < of_nat (max (fcard A) (fcard B))"
    by (simp only: of_nat_0_less_iff of_nat_eq_0_iff neq0_conv)
  with le have "v \<le> 1" unfolding v by (simp only: divide_le_eq_1_pos)
  moreover have "0 \<le> v" unfolding v by (rule divide_nonneg_nonneg) simp_all
  ultimately show ?thesis by simp
qed

lemma signature_similarity_bounds:
  "signature_similarity ms1 ms2 = Inr v \<Longrightarrow> 0 \<le> v \<and> v \<le> 1"
  unfolding signature_similarity_def Let_def by (rule set_ratio_bounds)

lemma class_similarity_bounds:
  "class_similarity ms1 ms2 = Inr v \<Longrightarrow> 0 \<le> v \<and> v \<le> 1"
  unfolding class_similarity_def Let_def by (rule set_ratio_bounds)

lemma avg_similarity_bounds:
  assumes "avg_similarity As Bs = Inr v"
  shows "0 \<le> v \<and> v \<le> 1"
proof -
  from assms have "v = mean (map (\<lambda>A. best_match A Bs) As)" by (rule avg_similarity_Inr)
  moreover have "list_all (\<lambda>x. 0 \<le> x \<and> x \<le> 1) (map (\<lambda>A. best_match A Bs) As)"
    by (simp add: list_all_iff best_match_bounds)
  ultimately show ?thesis by (simp only: mean_bounds)
qed

lemma feature_similarity_bounds:
  "feature_similarity h ms1 ms2 = Inr v \<Longrightarrow> 0 \<le> v \<and> v \<le> 1"
  by (auto simp: feature_similarity_def split: sum.splits dest: avg_similarity_bounds)

lemma min_max_ratio_bounds:
  assumes "0 \<le> a" and "0 \<le> b" and "min_max_ratio a b = Inr v"
  shows "0 \<le> v \<and> v \<le> 1"
proof (cases "a = 0 \<and> b = 0")
  case True
  with assms show ?thesis by (simp add: min_max_ratio_eq)
next
  case False
  with assms have v: "v = min a b / max a b" by (simp add: min_max_ratio_eq)
  from False assms have "0 < max a b" by (auto simp: max_def)
  then have "min a b / max a b \<le> 1" by (simp add: divide_le_eq_1_pos)
  moreover from assms have "0 \<le> min a b / max a b"
    by (intro divide_nonneg_nonneg) simp_all
  ultimately show ?thesis by (simp add: v)
qed

lemma length_similarity_bounds:
  "length_similarity ms1 ms2 = Inr v \<Longrightarrow> 0 \<le> v \<and> v \<le> 1"
  unfolding length_similarity_def average_mean sum.case
  by (rule min_max_ratio_bounds [OF mean_nonneg mean_nonneg])

lemma bb_similarity_bounds:
  "bb_similarity ms1 ms2 = Inr v \<Longrightarrow> 0 \<le> v \<and> v \<le> 1"
  unfolding bb_similarity_def average_mean sum.case
  by (rule min_max_ratio_bounds [OF mean_nonneg mean_nonneg])

lemma compare_metrics_Inr:
  assumes "compare_metrics h ms1 ms2 = Inr r"
  shows "signature_similarity ms1 ms2 = Inr (signature_score r)
       \<and> feature_similarity h ms1 ms2 = Inr (feature_score r)
       \<and> class_similarity ms1 ms2 = Inr (class_score r)
       \<and> length_similarity ms1 ms2 = Inr (length_score r)
       \<and> bb_similarity ms1 ms2 = Inr (bb_score r)
       \<and> overall_score r =
           (signature_score r + feature_score r + class_score r + length_score r + bb_score r) / 5"
  using assms unfolding compare_metrics_def
  by (auto split: sum.splits)

lemma compare_apk_code_eq:
  "64 < length ms1 \<Longrightarrow> compare_apk_code h ms1 ms2 = compare_metrics h ms1 ms2"
  by (simp add: compare_apk_code_def)

lemma compare_apk_code_Inr:
  "compare_apk_code h ms1 ms2 = Inr r \<Longrightarrow> compare_metrics h ms1 ms2 = Inr r"
  by (simp add: compare_apk_code_def split: if_splits)

lemma signature_similarity_self: "ms \<noteq> [] \<Longrightarrow> signature_similarity ms ms = Inr 1"
proof -
  assume "ms \<noteq> []"
  then have "0 < fcard (get_method_signature |`| fset_of_list ms)" by (rule fcard_fimage_pos)
  then show ?thesis by (simp add: signature_similarity_def truediv_def del: fcard_0_eq)
qed

lemma class_similarity_self: "ms \<noteq> [] \<Longrightarrow> class_similarity ms ms = Inr 1"
proof -
  assume "ms \<noteq> []"
  then have "0 < fcard (class_name |`| fset_of_list ms)" by (rule fcard_fimage_pos)
  then show ?thesis by (simp add: class_similarity_def truediv_def del: fcard_0_eq)
qed

lemma min_max_ratio_self: "0 \<le> a \<Longrightarrow> min_max_ratio a a = Inr 1"
  by (simp add: min_max_ratio_def truediv_def)

lemma length_similarity_self: "length_similarity ms ms = Inr 1"
  unfolding length_similarity_def average_mean sum.case
  by (rule min_max_ratio_self [OF mean_nonneg])

lemma bb_similarity_self: "bb_similarity ms ms = Inr 1"
  unfolding bb_similarity_def average_mean sum.case
  by (rule min_max_ratio_self [OF mean_nonneg])

lemma feature_similarity_self:
  assumes "ms \<noteq> []" and "list_all resolves ms"
  shows "feature_similarity h ms ms = Inr 1"
proof -
  have "list_all (\<lambda>x. x = 1)
          (map (\<lambda>m1. best_match (feature_tokens h m1) (map (feature_tokens h) ms)) ms)"
    by (simp add: list_all_iff best_match_self feature_tokens_nonempty)
  with assms(1) have
    "mean (map (\<lambda>m1. best_match (feature_tokens h m1) (map (feature_tokens h) ms)) ms) = 1"
    by (intro mean_ones) simp_all
  with assms(2) show ?thesis by (simp add: feature_similarity_eq)
qed

lemma compare_metrics_self:
  assumes "ms \<noteq> []" and "list_all resolves ms"
  shows "compare_metrics h ms ms =
           Inr \<lparr>signature_score = 1, feature_score = 1, class_score = 1, length_score = 1,
                bb_score = 1, overall_score = 1\<rparr>"
  using assms
  by (simp add: compare_metrics_def signature_similarity_self feature_similarity_self
        class_similarity_self length_similarity_self bb_similarity_self)

lemma many_methods_facts:
  "many_methods \<noteq> []" "list_all resolves many_methods" "64 < length many_methods"
proof -
  show "64 < length many_methods" by (simp add: many_methods_def)
  then show "many_methods \<noteq> []" by auto
  show "list_all resolves many_methods"
    by (simp add: many_methods_def list_all_iff resolves_degenerate)
qed

lemma many_methods_self:
  "compare_apk_code id many_methods many_methods =
     Inr \<lparr>signature_score = 1, feature_score = 1, class_score = 1, length_score = 1,
          bb_score = 1, overall_score = 1\<rparr>"
  by (simp add: compare_apk_code_eq [OF many_methods_facts(3)]
        compare_metrics_self [OF many_methods_facts(1,2)])


lemma sample_resolves:
  "list_all resolves [method_f, method_k]" "list_all resolves [method_f_modified]"
  by (simp_all add: resolves_def string_loads_def method_f_def method_k_def
        method_f_modified_def const_string_def return_void_def)

lemma sample_jaccards:
  "jaccard (feature_tokens id method_f) (feature_tokens id method_f_modified) = 3 / 5"
  "jaccard (feature_tokens id method_k) (feature_tokens id method_f_modified) = 0"
  "jaccard (feature_tokens id method_f) (feature_tokens id method_k) = 0"
  "jaccard (feature_tokens id method_k) (feature_tokens id method_f) = 0"
  by (simp_all add: tokens_f tokens_fm tokens_k jaccard_def fcard_finsert_if fcard_fempty)

lemma sample_feature_similarity:
  "feature_similarity id [method_f, method_k] [method_f_modified] = Inr (3 / 10)"
  by (simp add: feature_similarity_eq [OF sample_resolves] mean_def best_match_def
        sample_jaccards)

lemma sample_signature_similarity:
  "signature_similarity [method_f, method_k] [method_f_modified] = Inr (1 / 2)"
  by (simp add: signature_similarity_def get_method_signature_def truediv_def method_f_def
        method_k_def method_f_modified_def fcard_finsert_if fcard_fempty)

lemma sample_class_similarity:
  "class_similarity [method_f, method_k] [method_f_modified] = Inr (1 / 2)"
  by (simp add: class_similarity_def truediv_def method_f_def
        method_k_def method_f_modified_def fcard_finsert_if fcard_fempty)

lemma sample_length_similarity:
  "length_similarity [method_f, method_k] [method_f_modified] = Inr (3 / 4)"
  by (simp add: length_similarity_def average_def min_max_ratio_def truediv_def method_f_def
        method_k_def method_f_modified_def)

lemma sample_bb_similarity:
  "bb_similarity [method_f, method_k] [method_f_modified] = Inr 1"
  by (simp add: bb_similarity_def average_def min_max_ratio_def truediv_def method_f_def
        method_k_def method_f_modified_def)

lemma sample_compare_metrics:
  "compare_metrics id [method_f, method_k] [method_f_modified] =
     Inr \<lparr>signature_score = 1 / 2, feature_score = 3 / 10, class_score = 1 / 2,
          length_score = 3 / 4, bb_score = 1, overall_score = 61 / 100\<rparr>"
  by (simp add: compare_metrics_def sample_signature_similarity sample_feature_similarity
        sample_class_similarity sample_length_similarity sample_bb_similarity)

text \<open>
  C5. Whenever the five metrics of two filtered lists are all computed, each of them lies
  between 0 and 1 inclusive, the overall score is their sum divided by 5, and the overall
  score lies between 0 and 1 as well. (A result of \<^verbatim>\<open>compare_apk_code\<close> is a result
  of the metric part, by \<open>compare_apk_code_Inr\<close>.)
\<close>

theorem metrics_in_unit_interval:
  assumes "compare_metrics h ms1 ms2 = Inr r"
  shows "0 \<le> signature_score r \<and> signature_score r \<le> 1
       \<and> 0 \<le> feature_score r \<and> feature_score r \<le> 1
       \<and> 0 \<le> class_score r \<and> class_score r \<le> 1
       \<and> 0 \<le> length_score r \<and> length_score r \<le> 1
       \<and> 0 \<le> bb_score r \<and> bb_score r \<le> 1
       \<and> overall_score r =
           (signature_score r + feature_score r + class_score r + length_score r + bb_score r) / 5
       \<and> 0 \<le> overall_score r \<and> overall_score r \<le> 1"
proof -
  note m = compare_metrics_Inr [OF assms]
  from m have s: "0 \<le> signature_score r \<and> signature_score r \<le> 1"
    by (intro signature_similarity_bounds [of ms1 ms2]) simp
  from m have f: "0 \<le> feature_score r \<and> feature_score r \<le> 1"
    by (intro feature_similarity_bounds [of h ms1 ms2]) simp
  from m have c: "0 \<le> class_score r \<and> class_score r \<le> 1"
    by (intro class_similarity_bounds [of ms1 ms2]) simp
  from m have l: "0 \<le> length_score r \<and> length_score r \<le> 1"
    by (intro length_similarity_bounds [of ms1 ms2]) simp
  from m have b: "0 \<le> bb_score r \<and> bb_score r \<le> 1"
    by (intro bb_similarity_bounds [of ms1 ms2]) simp
  from m have o: "overall_score r =
      (signature_score r + feature_score r + class_score r + length_score r + bb_score r) / 5"
    by simp
  from s f c l b have "0 \<le> overall_score r \<and> overall_score r \<le> 1"
    unfolding o by simp
  with s f c l b o show ?thesis by simp
qed


text \<open>
  Two instances: a small pair of lists with fractional scores, and the comparison of 65
  distinct methods with themselves, on which the whole of \<^verbatim>\<open>compare_apk_code\<close> runs.
\<close>

theorem metrics_in_unit_interval_witness:
  "compare_metrics id [method_f, method_k] [method_f_modified] =
     Inr \<lparr>signature_score = 1 / 2, feature_score = 3 / 10, class_score = 1 / 2,
          length_score = 3 / 4, bb_score = 1, overall_score = 61 / 100\<rparr>
   \<and> (61 / 100 :: rat) = (1 / 2 + 3 / 10 + 1 / 2 + 3 / 4 + 1) / 5
   \<and> (0 :: rat) \<le> 61 / 100 \<and> (61 / 100 :: rat) \<le> 1
   \<and> compare_apk_code id many_methods many_methods =
     Inr \<lparr>signature_score = 1, feature_score = 1, class_score = 1, length_score = 1,
          bb_score = 1, overall_score = 1\<rparr>"
  using metrics_in_unit_interval [OF sample_compare_metrics]
        metrics_in_unit_interval [OF compare_apk_code_Inr [OF many_methods_self]]
        sample_compare_metrics many_methods_self
  by simp





end
